theory Spec2Isabelle
  imports Complex_Main
begin

section \<open>The Z-IMAGE inference server (scripts/zimage\_server.py)\<close>

text \<open>
  The script is glue around an external image pipeline. Everything the script itself
  decides (which branch a handler takes, what it returns, which globals it assigns, what
  file name it builds) is modelled here as written. Everything it delegates (the
  pipeline, PIL, base64, the clock, \<open>time.sleep\<close>, the file system, torch's device
  probe) is a field of the record \<open>env\<close>: a theorem holds for every behaviour of those
  libraries.

  An external call that raises returns \<open>Inl e\<close>. A value of type \<open>exn\<close> stands for an
  instance of Python's class \<open>Exception\<close>, the class named by the handler's
  \<open>except Exception\<close> clause; \<open>message e\<close> is \<open>str(e)\<close>. The interpreter's own
  \<open>sys.exit\<close> is an outcome of the process, not an \<open>exn\<close>.
\<close>

subsection \<open>Values of the external libraries\<close>

datatype exn = Exception (message: string)

type_synonym 'a res = "exn + 'a"

text \<open>
  A Python \<open>float\<close>: a finite value, an infinity or not-a-number. \<open>float("inf")\<close> and
  \<open>float("nan")\<close> are what argparse makes of \<open>--mock-delay inf\<close> and \<open>--mock-delay nan\<close>.
\<close>

datatype pyfloat = Float real | PosInf | NegInf | NaN

text \<open>The comparison \<open>x > 0\<close> on floats: false for not-a-number.\<close>

fun positive :: "pyfloat \<Rightarrow> bool" where
  "positive (Float r) = (0 < r)"
| "positive PosInf = True"
| "positive NegInf = False"
| "positive NaN = False"

text \<open>The object returned by \<open>from_pretrained\<close>: an opaque handle.\<close>

datatype pipeline = Handle nat

text \<open>
  An element of \<open>result.images\<close>: a PIL image with its size and pixel content, or any
  other Python object. \<open>Solid r g b\<close> is the content made by \<open>Image.new\<close> with a colour.
\<close>

datatype pixels = Solid nat nat nat | Pixels "nat list"

datatype pyobj = PIL_Image nat nat pixels | Not_Image

text \<open>The arguments of one call \<open>pipe(...)\<close>; \<open>seed\<close> is the optional generator.\<close>

record pipe_call =
  call_prompt :: string
  call_width :: int
  call_height :: int
  num_inference_steps :: int
  call_guidance_scale :: pyfloat
  seed :: "nat option"

text \<open>The fields of \<open>datetime.now()\<close> that the script formats.\<close>

record datetime =
  year :: nat
  month :: nat
  day :: nat
  hour :: nat
  minute :: nat
  second :: nat

record env =
  from_pretrained :: "string \<Rightarrow> pipeline res"
  cuda_is_available :: bool
  get_device_name :: "string res"
  rocm_build :: bool
  to_device :: "pipeline \<Rightarrow> string \<Rightarrow> pipeline res"
  enable_model_cpu_offload :: "pipeline \<Rightarrow> exn option"
  call_pipeline :: "pipeline \<Rightarrow> pipe_call \<Rightarrow> pyobj list res"
  save_png :: "pyobj \<Rightarrow> nat list res"
  b64encode :: "nat list \<Rightarrow> string"
  now :: datetime
  save_file :: "pyobj \<Rightarrow> string \<Rightarrow> exn option"
  sleep :: "pyfloat \<Rightarrow> exn option"
  makedirs :: "string \<Rightarrow> exn option"

subsection \<open>Module globals and the two pydantic models\<close>

text \<open>Lines 43 to 47: \<open>pipe\<close>, \<open>mock_mode\<close>, \<open>mock_image_b64\<close>, \<open>mock_delay\<close>, \<open>output_dir\<close>.\<close>

record server_state =
  pipe :: "pipeline option"
  mock_mode :: bool
  mock_image_b64 :: string
  mock_delay :: pyfloat
  output_dir :: string

definition initial_state :: server_state where
  "initial_state =
     \<lparr>pipe = None, mock_mode = False, mock_image_b64 = [], mock_delay = Float 0,
      output_dir = []\<rparr>"

record GenerateRequest =
  prompt :: string
  width :: int
  height :: int
  steps :: int
  guidance_scale :: pyfloat

text \<open>
  The constructor of \<open>GenerateRequest\<close>: \<open>prompt\<close> is required, an omitted keyword
  (\<open>None\<close> here) takes the default written in the class body.
\<close>

definition GenerateRequest_new ::
  "string \<Rightarrow> int option \<Rightarrow> int option \<Rightarrow> int option \<Rightarrow> pyfloat option \<Rightarrow> GenerateRequest" where
  "GenerateRequest_new p w h st g =
     \<lparr>prompt = p,
      width = (case w of None \<Rightarrow> 1024 | Some v \<Rightarrow> v),
      height = (case h of None \<Rightarrow> 1024 | Some v \<Rightarrow> v),
      steps = (case st of None \<Rightarrow> 28 | Some v \<Rightarrow> v),
      guidance_scale = (case g of None \<Rightarrow> Float 4 | Some v \<Rightarrow> v)\<rparr>"

record GenerateResponse =
  image_b64 :: string
  mime_type :: string
  file_path :: string

definition GenerateResponse_new ::
  "string \<Rightarrow> string option \<Rightarrow> string option \<Rightarrow> GenerateResponse" where
  "GenerateResponse_new img mt fp =
     \<lparr>image_b64 = img,
      mime_type = (case mt of None \<Rightarrow> ''image/png'' | Some v \<Rightarrow> v),
      file_path = (case fp of None \<Rightarrow> [] | Some v \<Rightarrow> v)\<rparr>"

record HealthResponse =
  status :: string
  model_loaded :: bool
  mock :: bool

subsection \<open>What a handler does besides returning\<close>

datatype log_event =
  ImageSaved string
  | Generated int int int
  | GenerationFailed exn

datatype effect = Sleep pyfloat | SaveFile string pyobj | Log log_event

text \<open>
  What a handler hands to the framework: its return value, the \<open>HTTPException\<close> it
  raises (status and detail), or any other exception that leaves it, which the framework
  answers with its own 500 "Internal Server Error".
\<close>

datatype 'a http = Ok 'a | HTTPException nat string | Unhandled exn

subsection \<open>String formatting\<close>

text \<open>\<open>str(n)\<close> for a Python int, as the f-string of line 102 prints it.\<close>

fun str_nat :: "nat \<Rightarrow> string" where
  "str_nat n =
     (if n < 10 then [''0123456789'' ! n]
      else str_nat (n div 10) @ [''0123456789'' ! (n mod 10)])"

declare str_nat.simps [simp del]

definition str_int :: "int \<Rightarrow> string" where
  "str_int i = (if i < 0 then CHR ''-'' # str_nat (nat (- i)) else str_nat (nat i))"

text \<open>
  \<open>strftime("%Y%m%d_%H%M%S")\<close>: the year in decimal, the other fields zero-padded to
  two digits.
\<close>

definition pad2 :: "nat \<Rightarrow> string" where
  "pad2 n = (if n < 10 then CHR ''0'' # str_nat n else str_nat n)"

definition strftime :: "datetime \<Rightarrow> string" where
  "strftime dt =
     str_nat (year dt) @ pad2 (month dt) @ pad2 (day dt) @ ''_'' @
     pad2 (hour dt) @ pad2 (minute dt) @ pad2 (second dt)"

text \<open>\<open>os.path.join(a, b)\<close> of posixpath, for two components.\<close>

definition path_join :: "string \<Rightarrow> string \<Rightarrow> string" where
  "path_join a b =
     (if b \<noteq> [] \<and> hd b = CHR ''/'' then b
      else if a = [] \<or> last a = CHR ''/'' then a @ b
      else a @ ''/'' @ b)"

subsection \<open>The handlers\<close>

text \<open>
  \<open>GET /health\<close>, lines 64 to 70. A handler returns its response, and the globals as it
  leaves them.
\<close>

definition health :: "server_state \<Rightarrow> HealthResponse \<times> server_state" where
  "health s =
     (\<lparr>status = ''ok'', model_loaded = (pipe s \<noteq> None), mock = mock_mode s\<rparr>, s)"

text \<open>
  The body of the \<open>try\<close> block, lines 84 to 108: the response or the exception raised, and
  the effects performed before that. \<open>result.images[0]\<close> on an empty list raises
  IndexError.
\<close>

definition pipe_args :: "GenerateRequest \<Rightarrow> pipe_call" where
  "pipe_args req =
     \<lparr>call_prompt = prompt req, call_width = width req, call_height = height req,
      num_inference_steps = steps req, call_guidance_scale = guidance_scale req,
      seed = None\<rparr>"

definition file_name :: "datetime \<Rightarrow> GenerateRequest \<Rightarrow> string" where
  "file_name dt req =
     strftime dt @ ''_'' @ str_int (width req) @ ''x'' @ str_int (height req) @ ''.png''"

definition generate_try ::
  "env \<Rightarrow> server_state \<Rightarrow> pipeline \<Rightarrow> GenerateRequest \<Rightarrow> GenerateResponse res \<times> effect list" where
  "generate_try w s p req =
     (case call_pipeline w p (pipe_args req) of
        Inl e \<Rightarrow> (Inl e, [])
      | Inr images \<Rightarrow>
          (case images of
             [] \<Rightarrow> (Inl (Exception ''list index out of range''), [])
           | img # _ \<Rightarrow>
               (case save_png w img of
                  Inl e \<Rightarrow> (Inl e, [])
                | Inr buf \<Rightarrow>
                    (let b64 = b64encode w buf in
                     if output_dir s \<noteq> [] then
                       (let filename = file_name (now w) req;
                            saved_path = path_join (output_dir s) filename
                        in case save_file w img saved_path of
                             Some e \<Rightarrow> (Inl e, [])
                           | None \<Rightarrow>
                               (Inr (GenerateResponse_new b64 (Some ''image/png'') (Some saved_path)),
                                [SaveFile saved_path img, Log (ImageSaved saved_path),
                                 Log (Generated (width req) (height req) (steps req))]))
                     else
                       (Inr (GenerateResponse_new b64 (Some ''image/png'') (Some [])),
                        [Log (Generated (width req) (height req) (steps req))])))))"

text \<open>
  \<open>POST /generate\<close>, lines 73 to 111. The sleep of line 77 is outside the \<open>try\<close> of line
  83: what \<open>time.sleep\<close> raises (OverflowError for a delay too large for the clock)
  leaves the handler.
\<close>

definition generate ::
  "env \<Rightarrow> server_state \<Rightarrow> GenerateRequest \<Rightarrow> GenerateResponse http \<times> effect list \<times> server_state" where
  "generate w s req =
     (if mock_mode s then
        (if positive (mock_delay s) then
           (case sleep w (mock_delay s) of
              Some e \<Rightarrow> (Unhandled e, [], s)
            | None \<Rightarrow>
                (Ok (GenerateResponse_new (mock_image_b64 s) (Some ''image/png'') None),
                 [Sleep (mock_delay s)], s))
         else
           (Ok (GenerateResponse_new (mock_image_b64 s) (Some ''image/png'') None), [], s))
      else
        (case pipe s of
           None \<Rightarrow> (HTTPException 503 ''Model not loaded'', [], s)
         | Some p \<Rightarrow>
             (case generate_try w s p req of
                (Inr r, fx) \<Rightarrow> (Ok r, fx, s)
              | (Inl e, fx) \<Rightarrow>
                  (HTTPException 500 (message e), fx @ [Log (GenerationFailed e)], s))))"

subsection \<open>Startup\<close>

text \<open>
  A startup function takes the globals and returns its result with the list of the
  states the globals pass through, one per assignment, in order.
\<close>

definition detect_device :: "env \<Rightarrow> string res" where
  "detect_device w =
     (if cuda_is_available w then
        (case get_device_name w of Inl e \<Rightarrow> Inl e | Inr name \<Rightarrow> Inr ''cuda'')
      else if rocm_build w then
        (if cuda_is_available w then
           (case get_device_name w of Inl e \<Rightarrow> Inr ''cpu'' | Inr name \<Rightarrow> Inr ''cuda'')
         else Inr ''cpu'')
      else Inr ''cpu'')"

definition load_model :: "env \<Rightarrow> string \<Rightarrow> server_state \<Rightarrow> unit res \<times> server_state list" where
  "load_model w model_id s =
     (case from_pretrained w model_id of
        Inl e \<Rightarrow> (Inl e, [])
      | Inr p \<Rightarrow>
          (let s1 = s\<lparr>pipe := Some p\<rparr> in
           case detect_device w of
             Inl e \<Rightarrow> (Inl e, [s1])
           | Inr device \<Rightarrow>
               if device \<noteq> ''cpu'' then
                 (case to_device w p device of
                    Inl e \<Rightarrow> (Inl e, [s1])
                  | Inr p' \<Rightarrow> (Inr (), [s1, s1\<lparr>pipe := Some p'\<rparr>]))
               else
                 (case enable_model_cpu_offload w p of
                    Some e \<Rightarrow> (Inl e, [s1])
                  | None \<Rightarrow> (Inr (), [s1]))))"

definition init_mock :: "env \<Rightarrow> server_state \<Rightarrow> unit res \<times> server_state list" where
  "init_mock w s =
     (let s1 = s\<lparr>mock_mode := True\<rparr>;
          img = PIL_Image 64 64 (Solid 100 149 237)
      in case save_png w img of
           Inl e \<Rightarrow> (Inl e, [s1])
         | Inr buf \<Rightarrow> (Inr (), [s1, s1\<lparr>mock_image_b64 := b64encode w buf\<rparr>]))"

text \<open>
  How the process ends or goes on: \<open>sys.exit(n)\<close>, an exception nobody catches, or
  \<open>uvicorn.run\<close> serving with the globals as startup left them. The interpreter ends
  with status 1 on an uncaught exception; \<open>exit_status\<close> is the status of a process that
  has ended.
\<close>

datatype outcome = Exit nat | Uncaught exn | Serving server_state

fun exit_status :: "outcome \<Rightarrow> nat option" where
  "exit_status (Exit n) = Some n"
| "exit_status (Uncaught e) = Some 1"
| "exit_status (Serving s) = None"

definition self_test_call :: pipe_call where
  "self_test_call =
     \<lparr>call_prompt = ''a red circle on a white background'', call_width = 512,
      call_height = 512, num_inference_steps = 28, call_guidance_scale = Float 4,
      seed = Some 42\<rparr>"

definition run_self_test :: "env \<Rightarrow> string \<Rightarrow> server_state \<Rightarrow> outcome \<times> server_state list" where
  "run_self_test w model_id s =
     (case load_model w model_id s of
        (Inl e, tr) \<Rightarrow> (Uncaught e, tr)
      | (Inr u, tr) \<Rightarrow>
          (case pipe (last (s # tr)) of
             None \<Rightarrow> (Uncaught (Exception ''NoneType object is not callable''), tr)
           | Some p \<Rightarrow>
               (case call_pipeline w p self_test_call of
                  Inl e \<Rightarrow> (Uncaught e, tr)
                | Inr images \<Rightarrow>
                    (case images of
                       [] \<Rightarrow> (Uncaught (Exception ''list index out of range''), tr)
                     | img # _ \<Rightarrow>
                         (case img of
                            Not_Image \<Rightarrow> (Exit 1, tr)
                          | PIL_Image iw ih px \<Rightarrow>
                              if iw \<noteq> 512 \<or> ih \<noteq> 512 then (Exit 1, tr)
                              else
                                (case save_file w img ''scripts/test_output.png'' of
                                   Some e \<Rightarrow> (Uncaught e, tr)
                                 | None \<Rightarrow> (Exit 0, tr)))))))"

text \<open>The parsed command line, lines 205 to 241.\<close>

record args =
  port :: int
  host :: string
  model :: string
  mock_flag :: bool
  mock_delay_arg :: pyfloat
  self_test :: bool
  output_dir_arg :: string

text \<open>The main block from line 248 on, started on the globals \<open>s\<close>.\<close>

definition main :: "env \<Rightarrow> args \<Rightarrow> server_state \<Rightarrow> outcome \<times> server_state list" where
  "main w a s =
     (let s1 = s\<lparr>output_dir := output_dir_arg a\<rparr> in
      case makedirs w (output_dir s1) of
        Some e \<Rightarrow> (Uncaught e, [s1])
      | None \<Rightarrow>
          if self_test a then
            (case run_self_test w (model a) s1 of (out, tr) \<Rightarrow> (out, s1 # tr))
          else if mock_flag a then
            (let s2 = s1\<lparr>mock_delay := mock_delay_arg a\<rparr> in
             case init_mock w s2 of
               (Inl e, tr) \<Rightarrow> (Uncaught e, s1 # s2 # tr)
             | (Inr u, tr) \<Rightarrow> (Serving (last (s2 # tr)), s1 # s2 # tr))
          else
            (case load_model w (model a) s1 of
               (Inl e, tr) \<Rightarrow> (Uncaught e, s1 # tr)
             | (Inr u, tr) \<Rightarrow> (Serving (last (s1 # tr)), s1 # tr)))"

subsection \<open>Serving requests\<close>

datatype request = Health | Generate GenerateRequest

definition handle :: "env \<Rightarrow> server_state \<Rightarrow> request \<Rightarrow> server_state" where
  "handle w s r =
     (case r of Health \<Rightarrow> snd (health s) | Generate req \<Rightarrow> snd (snd (generate w s req)))"

text \<open>
  The states of the globals after each request of a run, each request served in the
  world it arrives in.
\<close>

fun serve :: "server_state \<Rightarrow> (env \<times> request) list \<Rightarrow> server_state list" where
  "serve s [] = []"
| "serve s ((w, r) # rs) = handle w s r # serve (handle w s r) rs"

text \<open>
  Every state of the globals during the life of a process: the module's initial values,
  the states of startup, then the state after each request served.
\<close>

definition process_states :: "env \<Rightarrow> args \<Rightarrow> (env \<times> request) list \<Rightarrow> server_state list" where
  "process_states w a rs =
     (case main w a initial_state of
        (Serving s, tr) \<Rightarrow> initial_state # tr @ serve s rs
      | (out, tr) \<Rightarrow> initial_state # tr)"

text \<open>How often a list of successive handle values goes from absent to present.\<close>

fun loads :: "pipeline option list \<Rightarrow> nat" where
  "loads (None # Some p # xs) = Suc (loads (Some p # xs))"
| "loads (x # y # xs) = loads (y # xs)"
| "loads xs = 0"

text \<open>How often it goes from present to absent.\<close>

fun unloads :: "pipeline option list \<Rightarrow> nat" where
  "unloads (Some p # None # xs) = Suc (unloads (None # xs))"
| "unloads (x # y # xs) = unloads (y # xs)"
| "unloads xs = 0"

subsection \<open>Example worlds\<close>

text \<open>
  Concrete libraries on which the theorems below are instantiated: a pipeline that
  returns one image of the requested size, a disk that accepts every write, and the same
  world with a disk that refuses every write. \<open>sleep\<close> is CPython's: ValueError for a
  negative delay or not-a-number, OverflowError for a delay beyond the 64-bit nanosecond
  clock (about 9.2e9 seconds), and a normal return otherwise.
\<close>

definition time_sleep :: "pyfloat \<Rightarrow> exn option" where
  "time_sleep d =
     (case d of
        Float r \<Rightarrow>
          if r < 0 then Some (Exception ''sleep length must be non-negative'')
          else if 9223372037 \<le> r then
            Some (Exception ''timestamp too large to convert to C PyTime_t'')
          else None
      | PosInf \<Rightarrow> Some (Exception ''timestamp too large to convert to C PyTime_t'')
      | NegInf \<Rightarrow> Some (Exception ''sleep length must be non-negative'')
      | NaN \<Rightarrow> Some (Exception ''Invalid value NaN (not a number)''))"

definition example_env :: env where
  "example_env =
     \<lparr>from_pretrained = (\<lambda>m. Inr (Handle 0)),
      cuda_is_available = False,
      get_device_name = Inl (Exception ''no device''),
      rocm_build = False,
      to_device = (\<lambda>p d. Inr p),
      enable_model_cpu_offload = (\<lambda>p. None),
      call_pipeline = (\<lambda>p c. Inr [PIL_Image (nat (call_width c)) (nat (call_height c)) (Pixels [])]),
      save_png = (\<lambda>img. Inr [137, 80, 78, 71]),
      b64encode = (\<lambda>bs. ''iVBORw==''),
      now = \<lparr>year = 2026, month = 3, day = 7, hour = 9, minute = 5, second = 42\<rparr>,
      save_file = (\<lambda>img path. None),
      sleep = time_sleep,
      makedirs = (\<lambda>d. None)\<rparr>"

definition readonly_env :: env where
  "readonly_env =
     example_env\<lparr>save_file := (\<lambda>img path. Some (Exception ''No such file or directory''))\<rparr>"

definition failing_env :: env where
  "failing_env = example_env\<lparr>call_pipeline := (\<lambda>p c. Inl (Exception ''CUDA out of memory''))\<rparr>"

definition example_req :: GenerateRequest where
  "example_req = GenerateRequest_new ''a cat'' (Some 640) (Some 480) None None"

definition mock_args :: args where
  "mock_args =
     \<lparr>port = 8090, host = ''0.0.0.0'', model = ''Tongyi-MAI/Z-Image'', mock_flag = True,
      mock_delay_arg = Float (1 / 2), self_test = False, output_dir_arg = ''output/zimage''\<rparr>"

definition normal_args :: args where
  "normal_args = mock_args\<lparr>mock_flag := False\<rparr>"

definition mock_state :: server_state where
  "mock_state =
     \<lparr>pipe = None, mock_mode = True, mock_image_b64 = ''iVBORw=='',
      mock_delay = Float (1 / 2),
      output_dir = ''output/zimage''\<rparr>"

definition loaded_state :: server_state where
  "loaded_state =
     \<lparr>pipe = Some (Handle 0), mock_mode = False, mock_image_b64 = [],
      mock_delay = Float 0,
      output_dir = ''output/zimage''\<rparr>"

definition slow_mock_args :: args where
  "slow_mock_args = mock_args\<lparr>mock_delay_arg := Float 10000000000\<rparr>"

definition slow_mock_state :: server_state where
  "slow_mock_state = mock_state\<lparr>mock_delay := Float 10000000000\<rparr>"

definition endless_mock_args :: args where
  "endless_mock_args = mock_args\<lparr>mock_delay_arg := PosInf\<rparr>"

definition endless_mock_state :: server_state where
  "endless_mock_state = mock_state\<lparr>mock_delay := PosInf\<rparr>"

definition selftest_args :: args where
  "selftest_args = mock_args\<lparr>mock_flag := False, self_test := True\<rparr>"

text \<open>
  The ranges the class \<open>datetime\<close> keeps its fields in, for a year of four digits (every
  year a clock reads today).
\<close>

definition valid_datetime :: "datetime \<Rightarrow> bool" where
  "valid_datetime dt =
     (1000 \<le> year dt \<and> year dt \<le> 9999 \<and> 1 \<le> month dt \<and> month dt \<le> 12 \<and>
      1 \<le> day dt \<and> day dt \<le> 31 \<and> hour dt < 24 \<and> minute dt < 60 \<and> second dt < 60)"

section \<open>Properties\<close>

lemmas example_defs = example_env_def readonly_env_def failing_env_def example_req_def
  mock_args_def normal_args_def mock_state_def loaded_state_def initial_state_def
  GenerateRequest_new_def GenerateResponse_new_def time_sleep_def

lemmas run_defs = generate_def generate_try_def pipe_args_def file_name_def strftime_def
  pad2_def str_int_def str_nat.simps path_join_def Let_def

subsection \<open>What the try block returns\<close>

lemma path_join_nonempty: "b \<noteq> [] \<Longrightarrow> path_join a b \<noteq> []"
  by (simp add: path_join_def)

lemma file_name_nonempty: "file_name dt req \<noteq> []"
  by (simp add: file_name_def)

lemma generate_try_ok:
  "generate_try w s p req = (Inr r, fx) \<Longrightarrow>
   \<exists>img rest buf. call_pipeline w p (pipe_args req) = Inr (img # rest) \<and>
     save_png w img = Inr buf \<and>
     image_b64 r = b64encode w buf \<and> mime_type r = ''image/png'' \<and>
     (if output_dir s \<noteq> [] then
        file_path r = path_join (output_dir s) (file_name (now w) req) \<and>
        save_file w img (file_path r) = None \<and>
        fx = [SaveFile (file_path r) img, Log (ImageSaved (file_path r)),
              Log (Generated (width req) (height req) (steps req))]
      else file_path r = [] \<and> fx = [Log (Generated (width req) (height req) (steps req))])"
  by (auto simp: generate_try_def GenerateResponse_new_def Let_def
      split: sum.splits list.splits option.splits if_splits)

lemma generate_ok_nonmock:
  assumes "\<not> mock_mode s" and "fst (generate w s req) = Ok r"
  shows "\<exists>p fx. pipe s = Some p \<and> generate_try w s p req = (Inr r, fx) \<and>
                generate w s req = (Ok r, fx, s)"
  using assms
  by (auto simp: generate_def split: option.splits sum.splits prod.splits)

lemma init_mock_ok:
  "init_mock w s = (Inr u, tr) \<Longrightarrow>
   \<exists>buf. save_png w (PIL_Image 64 64 (Solid 100 149 237)) = Inr buf \<and>
     tr = [s\<lparr>mock_mode := True\<rparr>, s\<lparr>mock_mode := True, mock_image_b64 := b64encode w buf\<rparr>]"
  by (auto simp: init_mock_def Let_def split: sum.splits)

subsection \<open>The health handler\<close>

text \<open>
  Claim C6. \<open>GET /health\<close> answers exactly \<open>{status: "ok", model_loaded: b, mock: m}\<close>,
  where \<open>b\<close> says whether the pipeline handle is present and \<open>m\<close> is the mock flag; it
  returns the globals as it found them; on the module's initial globals, before any
  load, \<open>model_loaded\<close> is false.
\<close>

theorem health_reports_globals:
  "health s = (\<lparr>status = ''ok'', model_loaded = (pipe s \<noteq> None), mock = mock_mode s\<rparr>, s)
   \<and> model_loaded (fst (health initial_state)) = False"
  by (simp add: health_def initial_state_def)

subsection \<open>Generation without a model\<close>

text \<open>
  The mock branch of \<open>generate\<close> comes before the test of the handle (line 75 before
  line 80): the server started with \<open>--mock\<close> has no pipeline and answers with the
  placeholder, not with 503.
\<close>

theorem generate_unloaded_mock_counterexample:
  "pipe mock_state = None \<and>
   fst (generate example_env mock_state example_req) =
     Ok \<lparr>image_b64 = ''iVBORw=='', mime_type = ''image/png'', file_path = []\<rparr> \<and>
   fst (generate example_env mock_state example_req) \<noteq> HTTPException 503 ''Model not loaded''"
  by (simp add: generate_def example_defs)

text \<open>
  Claim C1, amended. Outside mock mode, \<open>POST /generate\<close> with no pipeline loaded
  answers 503 with detail "Model not loaded", performs no effect and leaves the globals
  alone.
\<close>

theorem generate_unloaded_503:
  "\<not> mock_mode s \<Longrightarrow> pipe s = None \<Longrightarrow>
   generate w s req = (HTTPException 503 ''Model not loaded'', [], s)"
  by (simp add: generate_def)

theorem generate_unloaded_503_witness:
  "\<not> mock_mode initial_state \<and> pipe initial_state = None \<and>
   generate example_env initial_state example_req =
     (HTTPException 503 ''Model not loaded'', [], initial_state)"
  using generate_unloaded_503 [of initial_state example_env example_req]
  by (simp add: initial_state_def)

subsection \<open>The file path of a response\<close>

text \<open>
  In mock mode the response is built without \<open>file_path\<close> (line 78), so it is empty
  whatever the output directory.
\<close>

theorem file_path_mock_counterexample:
  "output_dir mock_state \<noteq> [] \<and>
   fst (generate example_env mock_state example_req) =
     Ok \<lparr>image_b64 = ''iVBORw=='', mime_type = ''image/png'', file_path = []\<rparr>"
  by (simp add: generate_def example_defs)

text \<open>
  Claim C2, amended. For every successful response of \<open>POST /generate\<close> outside mock
  mode, \<open>file_path\<close> is non-empty exactly when an output directory is configured.
\<close>

theorem file_path_follows_output_dir:
  assumes "\<not> mock_mode s" and "fst (generate w s req) = Ok r"
  shows "(file_path r \<noteq> []) = (output_dir s \<noteq> [])"
proof -
  from generate_ok_nonmock [OF assms] obtain p fx where
    "generate_try w s p req = (Inr r, fx)" by blast
  from generate_try_ok [OF this] have
    "if output_dir s \<noteq> [] then file_path r = path_join (output_dir s) (file_name (now w) req)
     else file_path r = []" by (auto split: if_splits)
  moreover have "path_join (output_dir s) (file_name (now w) req) \<noteq> []"
    by (rule path_join_nonempty [OF file_name_nonempty])
  ultimately show ?thesis by (simp split: if_splits)
qed

theorem file_path_follows_output_dir_witness:
  "\<not> mock_mode loaded_state \<and>
   fst (generate example_env loaded_state example_req) =
     Ok \<lparr>image_b64 = ''iVBORw=='', mime_type = ''image/png'',
         file_path = ''output/zimage/20260307_090542_640x480.png''\<rparr> \<and>
   (''output/zimage/20260307_090542_640x480.png'' \<noteq> []) = (output_dir loaded_state \<noteq> [])"
proof -
  have ok: "fst (generate example_env loaded_state example_req) =
     Ok \<lparr>image_b64 = ''iVBORw=='', mime_type = ''image/png'',
         file_path = ''output/zimage/20260307_090542_640x480.png''\<rparr>"
    by (simp add: run_defs example_defs)
  have nm: "\<not> mock_mode loaded_state" by (simp add: loaded_state_def)
  from file_path_follows_output_dir [OF nm ok] nm ok show ?thesis by simp
qed

subsection \<open>Mock mode\<close>

text \<open>
  The sleep of line 77 can raise, and it is outside the \<open>try\<close>: started with
  \<open>--mock --mock-delay 1e10\<close>, the server answers no request with the placeholder, the
  OverflowError of \<open>time.sleep\<close> leaves the handler.
\<close>

theorem mock_sleep_overflow_counterexample:
  "fst (main example_env slow_mock_args initial_state) = Serving slow_mock_state \<and>
   mock_mode slow_mock_state \<and>
   fst (generate example_env slow_mock_state example_req) =
     Unhandled (Exception ''timestamp too large to convert to C PyTime_t'')"
  by (simp add: main_def init_mock_def generate_def slow_mock_args_def slow_mock_state_def
      example_defs)

text \<open>
  Claim C3, amended. In mock mode, when the mock delay is not positive or \<open>time.sleep\<close>
  returns, \<open>POST /generate\<close> answers, for every request and whatever the other libraries
  do, with the image held in \<open>mock_image_b64\<close>, so two such requests get the same
  response; every response the handler returns in mock mode carries that image; when
  the sleep raises, its exception leaves the handler; and when \<open>init_mock\<close> succeeds it
  has set the mock flag and stored the base64 of the PNG of its 64 by 64
  cornflower-blue image.
\<close>

theorem mock_returns_fixed_image:
  "(mock_mode s \<and> (\<not> positive (mock_delay s) \<or> sleep w (mock_delay s) = None) \<longrightarrow>
      fst (generate w s req) =
        Ok \<lparr>image_b64 = mock_image_b64 s, mime_type = ''image/png'', file_path = []\<rparr>) \<and>
   (mock_mode s \<and> (\<not> positive (mock_delay s) \<or> sleep w (mock_delay s) = None) \<and>
    (\<not> positive (mock_delay s) \<or> sleep w' (mock_delay s) = None) \<longrightarrow>
      fst (generate w' s req') = fst (generate w s req)) \<and>
   (mock_mode s \<and> fst (generate w s req) = Ok r \<longrightarrow> image_b64 r = mock_image_b64 s) \<and>
   (mock_mode s \<and> positive (mock_delay s) \<and> sleep w (mock_delay s) = Some e \<longrightarrow>
      fst (generate w s req) = Unhandled e) \<and>
   (init_mock w0 s0 = (Inr (), tr) \<longrightarrow>
      mock_mode (last tr) \<and>
      (\<exists>buf. save_png w0 (PIL_Image 64 64 (Solid 100 149 237)) = Inr buf \<and>
         mock_image_b64 (last tr) = b64encode w0 buf))"
proof (intro conjI impI)
  assume "mock_mode s \<and> (\<not> positive (mock_delay s) \<or> sleep w (mock_delay s) = None)"
  then show "fst (generate w s req) =
      Ok \<lparr>image_b64 = mock_image_b64 s, mime_type = ''image/png'', file_path = []\<rparr>"
    by (auto simp: generate_def GenerateResponse_new_def)
next
  assume "mock_mode s \<and> (\<not> positive (mock_delay s) \<or> sleep w (mock_delay s) = None) \<and>
    (\<not> positive (mock_delay s) \<or> sleep w' (mock_delay s) = None)"
  then show "fst (generate w' s req') = fst (generate w s req)"
    by (auto simp: generate_def GenerateResponse_new_def)
next
  assume "mock_mode s \<and> fst (generate w s req) = Ok r"
  then show "image_b64 r = mock_image_b64 s"
    by (auto simp: generate_def GenerateResponse_new_def split: if_splits option.splits)
next
  assume "mock_mode s \<and> positive (mock_delay s) \<and> sleep w (mock_delay s) = Some e"
  then show "fst (generate w s req) = Unhandled e"
    by (simp add: generate_def)
next
  assume "init_mock w0 s0 = (Inr (), tr)"
  from init_mock_ok [OF this] obtain buf where
    b: "save_png w0 (PIL_Image 64 64 (Solid 100 149 237)) = Inr buf"
    and t: "tr = [s0\<lparr>mock_mode := True\<rparr>, s0\<lparr>mock_mode := True, mock_image_b64 := b64encode w0 buf\<rparr>]"
    by blast
  from t show "mock_mode (last tr)" by simp
  from b t show "\<exists>buf. save_png w0 (PIL_Image 64 64 (Solid 100 149 237)) = Inr buf \<and>
         mock_image_b64 (last tr) = b64encode w0 buf" by simp
qed

theorem mock_returns_fixed_image_witness:
  "mock_mode mock_state \<and> positive (mock_delay mock_state) \<and>
   sleep example_env (mock_delay mock_state) = None \<and>
   sleep failing_env (mock_delay mock_state) = None \<and>
   fst (generate example_env mock_state example_req) =
     Ok \<lparr>image_b64 = ''iVBORw=='', mime_type = ''image/png'', file_path = []\<rparr> \<and>
   fst (generate failing_env mock_state (GenerateRequest_new ''a dog'' None None (Some 4) None)) =
     fst (generate example_env mock_state example_req) \<and>
   sleep example_env (mock_delay slow_mock_state) =
     Some (Exception ''timestamp too large to convert to C PyTime_t'') \<and>
   fst (generate example_env slow_mock_state example_req) =
     Unhandled (Exception ''timestamp too large to convert to C PyTime_t'') \<and>
   init_mock example_env
     (initial_state\<lparr>output_dir := ''output/zimage'', mock_delay := Float (1 / 2)\<rparr>) =
     (Inr (), [mock_state\<lparr>mock_image_b64 := []\<rparr>, mock_state]) \<and>
   mock_mode (last [mock_state\<lparr>mock_image_b64 := []\<rparr>, mock_state])"
proof -
  have m: "mock_mode mock_state" "positive (mock_delay mock_state)"
    "sleep example_env (mock_delay mock_state) = None"
    "sleep failing_env (mock_delay mock_state) = None"
    by (simp_all add: example_defs)
  have sl: "mock_mode slow_mock_state" "positive (mock_delay slow_mock_state)"
    "sleep example_env (mock_delay slow_mock_state) =
       Some (Exception ''timestamp too large to convert to C PyTime_t'')"
    by (simp_all add: slow_mock_state_def example_defs)
  have i: "init_mock example_env
      (initial_state\<lparr>output_dir := ''output/zimage'', mock_delay := Float (1 / 2)\<rparr>) =
     (Inr (), [mock_state\<lparr>mock_image_b64 := []\<rparr>, mock_state])"
    by (simp add: init_mock_def example_defs)
  have v: "mock_image_b64 mock_state = ''iVBORw==''" by (simp add: mock_state_def)
  from mock_returns_fixed_image [where s = mock_state and w = example_env
      and req = example_req and w' = failing_env
      and req' = "GenerateRequest_new ''a dog'' None None (Some 4) None"
      and w0 = example_env
      and s0 = "initial_state\<lparr>output_dir := ''output/zimage'', mock_delay := Float (1 / 2)\<rparr>"
      and tr = "[mock_state\<lparr>mock_image_b64 := []\<rparr>, mock_state]"] m i v
  have 1: "fst (generate example_env mock_state example_req) =
     Ok \<lparr>image_b64 = ''iVBORw=='', mime_type = ''image/png'', file_path = []\<rparr>"
    and 2: "fst (generate failing_env mock_state (GenerateRequest_new ''a dog'' None None (Some 4) None)) =
     fst (generate example_env mock_state example_req)"
    and 3: "mock_mode (last [mock_state\<lparr>mock_image_b64 := []\<rparr>, mock_state])"
    by simp_all
  from mock_returns_fixed_image [where s = slow_mock_state and w = example_env
      and req = example_req
      and e = "Exception ''timestamp too large to convert to C PyTime_t''"] sl
  have 4: "fst (generate example_env slow_mock_state example_req) =
     Unhandled (Exception ''timestamp too large to convert to C PyTime_t'')"
    by simp
  from m sl i 1 2 3 4 show ?thesis by simp
qed

subsection \<open>Exceptions of the generation path\<close>

text \<open>
  Claim C4. Outside mock mode with the pipeline loaded, an exception raised by the
  pipeline call, by \<open>result.images[0]\<close>, by the PNG encoding or by the save to the output
  directory makes \<open>POST /generate\<close> answer 500 with the exception's message as detail;
  the handler answers either with the response the try block built or with that 500.
\<close>

theorem generation_exception_is_500:
  assumes "\<not> mock_mode s" and "pipe s = Some p"
  shows "(call_pipeline w p (pipe_args req) = Inl e \<longrightarrow>
            fst (generate w s req) = HTTPException 500 (message e)) \<and>
         (call_pipeline w p (pipe_args req) = Inr [] \<longrightarrow>
            fst (generate w s req) = HTTPException 500 ''list index out of range'') \<and>
         (call_pipeline w p (pipe_args req) = Inr (img # rest) \<and> save_png w img = Inl e \<longrightarrow>
            fst (generate w s req) = HTTPException 500 (message e)) \<and>
         (call_pipeline w p (pipe_args req) = Inr (img # rest) \<and> save_png w img = Inr buf \<and>
          output_dir s \<noteq> [] \<and>
          save_file w img (path_join (output_dir s) (file_name (now w) req)) = Some e \<longrightarrow>
            fst (generate w s req) = HTTPException 500 (message e)) \<and>
         (case fst (generate_try w s p req) of
            Inl x \<Rightarrow> fst (generate w s req) = HTTPException 500 (message x)
          | Inr r \<Rightarrow> fst (generate w s req) = Ok r)"
  using assms
  by (auto simp: generate_def generate_try_def Let_def
      split: sum.splits list.splits option.splits prod.splits)

theorem generation_exception_is_500_witness:
  "\<not> mock_mode loaded_state \<and> pipe loaded_state = Some (Handle 0) \<and>
   call_pipeline failing_env (Handle 0) (pipe_args example_req) = Inl (Exception ''CUDA out of memory'') \<and>
   fst (generate failing_env loaded_state example_req) = HTTPException 500 ''CUDA out of memory''"
proof -
  have a: "\<not> mock_mode loaded_state" and b: "pipe loaded_state = Some (Handle 0)"
    by (simp_all add: loaded_state_def)
  have c: "call_pipeline failing_env (Handle 0) (pipe_args example_req) =
      Inl (Exception ''CUDA out of memory'')"
    by (simp add: example_defs)
  from generation_exception_is_500 [OF a b, of failing_env example_req "Exception ''CUDA out of memory''"]
    a b c show ?thesis by simp
qed

subsection \<open>The self-test\<close>

text \<open>
  The image is saved after the two checks (line 199) and nothing catches what the save
  raises: with an output that is a PIL image of 512 by 512 and a disk that refuses the
  write, the process ends on the uncaught exception, with status 1.
\<close>

theorem self_test_save_fails_counterexample:
  "call_pipeline readonly_env (Handle 0) self_test_call = Inr [PIL_Image 512 512 (Pixels [])] \<and>
   fst (main readonly_env selftest_args initial_state) =
     Uncaught (Exception ''No such file or directory'') \<and>
   exit_status (fst (main readonly_env selftest_args initial_state)) = Some 1"
  by (simp add: main_def run_self_test_def load_model_def detect_device_def self_test_call_def
      selftest_args_def example_defs)

lemma run_self_test_exit0:
  "(fst (run_self_test w m s) = Exit 0) =
   (\<exists>tr p img rest px. load_model w m s = (Inr (), tr) \<and> pipe (last (s # tr)) = Some p \<and>
      call_pipeline w p self_test_call = Inr (img # rest) \<and> img = PIL_Image 512 512 px \<and>
      save_file w img ''scripts/test_output.png'' = None)"
  by (auto simp: run_self_test_def split: prod.splits sum.splits option.splits list.splits pyobj.splits)

lemma exit_status_0: "(exit_status out = Some 0) = (out = Exit 0)"
  by (cases out) auto

text \<open>
  Claim C5, amended. The self-test exits with status 0 exactly when the model loads, the
  fixed-seed 512 by 512 call returns a first image that is a PIL image of 512 by 512, and
  the save of that image to \<open>scripts/test_output.png\<close> succeeds; when the first image is
  no PIL image or has another size, the process exits with status 1.
\<close>

theorem self_test_exit_status:
  "(exit_status (fst (run_self_test w m s)) = Some 0) =
     (\<exists>tr p img rest px. load_model w m s = (Inr (), tr) \<and> pipe (last (s # tr)) = Some p \<and>
        call_pipeline w p self_test_call = Inr (img # rest) \<and> img = PIL_Image 512 512 px \<and>
        save_file w img ''scripts/test_output.png'' = None) \<and>
   (load_model w m s = (Inr (), tr') \<and> pipe (last (s # tr')) = Some p' \<and>
    call_pipeline w p' self_test_call = Inr (img' # rest') \<and>
    (\<forall>px. img' \<noteq> PIL_Image 512 512 px) \<longrightarrow>
      fst (run_self_test w m s) = Exit 1)"
proof (intro conjI impI)
  show "(exit_status (fst (run_self_test w m s)) = Some 0) =
     (\<exists>tr p img rest px. load_model w m s = (Inr (), tr) \<and> pipe (last (s # tr)) = Some p \<and>
        call_pipeline w p self_test_call = Inr (img # rest) \<and> img = PIL_Image 512 512 px \<and>
        save_file w img ''scripts/test_output.png'' = None)"
    by (simp only: exit_status_0 run_self_test_exit0)
next
  assume "load_model w m s = (Inr (), tr') \<and> pipe (last (s # tr')) = Some p' \<and>
    call_pipeline w p' self_test_call = Inr (img' # rest') \<and>
    (\<forall>px. img' \<noteq> PIL_Image 512 512 px)"
  then show "fst (run_self_test w m s) = Exit 1"
    by (cases img') (auto simp: run_self_test_def)
qed

theorem self_test_exit_status_witness:
  "exit_status (fst (run_self_test example_env ''m'' initial_state)) = Some 0 \<and>
   load_model example_env ''m'' initial_state = (Inr (), [initial_state\<lparr>pipe := Some (Handle 0)\<rparr>]) \<and>
   call_pipeline example_env (Handle 0) self_test_call = Inr [PIL_Image 512 512 (Pixels [])] \<and>
   save_file example_env (PIL_Image 512 512 (Pixels [])) ''scripts/test_output.png'' = None \<and>
   call_pipeline (example_env\<lparr>call_pipeline := (\<lambda>p c. Inr [PIL_Image 512 256 (Pixels [])])\<rparr>)
     (Handle 0) self_test_call = Inr [PIL_Image 512 256 (Pixels [])] \<and>
   fst (run_self_test (example_env\<lparr>call_pipeline := (\<lambda>p c. Inr [PIL_Image 512 256 (Pixels [])])\<rparr>)
     ''m'' initial_state) = Exit 1"
proof -
  let ?w = "example_env\<lparr>call_pipeline := (\<lambda>p c. Inr [PIL_Image 512 256 (Pixels [])])\<rparr>"
  have l: "load_model example_env ''m'' initial_state =
      (Inr (), [initial_state\<lparr>pipe := Some (Handle 0)\<rparr>])"
    by (simp add: load_model_def detect_device_def example_defs)
  have l': "load_model ?w ''m'' initial_state =
      (Inr (), [initial_state\<lparr>pipe := Some (Handle 0)\<rparr>])"
    by (simp add: load_model_def detect_device_def example_defs)
  have c: "call_pipeline example_env (Handle 0) self_test_call = Inr [PIL_Image 512 512 (Pixels [])]"
    by (simp add: self_test_call_def example_defs)
  have c': "call_pipeline ?w (Handle 0) self_test_call = Inr [PIL_Image 512 256 (Pixels [])]"
    by simp
  have f: "save_file example_env (PIL_Image 512 512 (Pixels [])) ''scripts/test_output.png'' = None"
    by (simp add: example_defs)
  have e: "\<exists>tr p img rest px. load_model example_env ''m'' initial_state = (Inr (), tr) \<and>
        pipe (last (initial_state # tr)) = Some p \<and>
        call_pipeline example_env p self_test_call = Inr (img # rest) \<and> img = PIL_Image 512 512 px \<and>
        save_file example_env img ''scripts/test_output.png'' = None"
    using l c f by simp
  from self_test_exit_status [where w = example_env and m = "''m''" and s = initial_state] e
  have 1: "exit_status (fst (run_self_test example_env ''m'' initial_state)) = Some 0" by blast
  from self_test_exit_status [where w = ?w and m = "''m''" and s = initial_state
      and tr' = "[initial_state\<lparr>pipe := Some (Handle 0)\<rparr>]" and p' = "Handle 0"
      and img' = "PIL_Image 512 256 (Pixels [])" and rest' = "[]"] l' c'
  have 2: "fst (run_self_test ?w ''m'' initial_state) = Exit 1" by simp
  from 1 2 l c c' f show ?thesis by simp
qed

subsection \<open>Defaults of the request and the MIME type\<close>

text \<open>
  Claim C7. A \<open>GenerateRequest\<close> built without the optional fields has width 1024,
  height 1024, 28 steps and guidance scale 4.0, each field taking its default on its
  own; every response \<open>POST /generate\<close> returns, mock or real, has the MIME type
  \<open>image/png\<close>.
\<close>

theorem request_defaults_and_mime_type:
  "GenerateRequest_new p None None None None =
     \<lparr>prompt = p, width = 1024, height = 1024, steps = 28,
      guidance_scale = Float 4\<rparr> \<and>
   width (GenerateRequest_new p None ht st g) = 1024 \<and>
   height (GenerateRequest_new p wd None st g) = 1024 \<and>
   steps (GenerateRequest_new p wd ht None g) = 28 \<and>
   guidance_scale (GenerateRequest_new p wd ht st None) = Float 4 \<and>
   (fst (generate w s req) = Ok r \<longrightarrow> mime_type r = ''image/png'')"
proof -
  have "mime_type r = ''image/png''" if ok: "fst (generate w s req) = Ok r"
  proof (cases "mock_mode s")
    case True
    with ok show ?thesis
      by (auto simp: generate_def GenerateResponse_new_def split: if_splits option.splits)
  next
    case False
    from generate_ok_nonmock [OF False ok] obtain p fx where
      "generate_try w s p req = (Inr r, fx)" by blast
    from generate_try_ok [OF this] show ?thesis by blast
  qed
  then show ?thesis by (simp add: GenerateRequest_new_def)
qed

theorem request_defaults_and_mime_type_witness:
  "GenerateRequest_new ''a cat'' None None None None =
     \<lparr>prompt = ''a cat'', width = 1024, height = 1024, steps = 28,
      guidance_scale = Float 4\<rparr> \<and>
   fst (generate example_env loaded_state example_req) =
     Ok \<lparr>image_b64 = ''iVBORw=='', mime_type = ''image/png'',
         file_path = ''output/zimage/20260307_090542_640x480.png''\<rparr> \<and>
   mime_type \<lparr>image_b64 = ''iVBORw=='', mime_type = ''image/png'',
         file_path = ''output/zimage/20260307_090542_640x480.png''\<rparr> = ''image/png''"
proof -
  have ok: "fst (generate example_env loaded_state example_req) =
     Ok \<lparr>image_b64 = ''iVBORw=='', mime_type = ''image/png'',
         file_path = ''output/zimage/20260307_090542_640x480.png''\<rparr>"
    by (simp add: run_defs example_defs)
  from request_defaults_and_mime_type [where p = "''a cat''" and w = example_env
      and s = loaded_state and req = example_req] ok
  show ?thesis by simp
qed

subsection \<open>The name of the saved file\<close>

lemma digit_mem: "k < 10 \<Longrightarrow> ''0123456789'' ! k \<in> set ''0123456789''"
  by (rule nth_mem) simp

lemma str_nat_digits: "set (str_nat n) \<subseteq> set ''0123456789''"
proof (induction n rule: str_nat.induct)
  case (1 n)
  show ?case
  proof (cases "n < 10")
    case True
    then have "str_nat n = [''0123456789'' ! n]" by (subst str_nat.simps) simp
    with digit_mem [OF True] show ?thesis by simp
  next
    case False
    then have eq: "str_nat n = str_nat (n div 10) @ [''0123456789'' ! (n mod 10)]"
      by (subst str_nat.simps) simp
    have "n mod 10 < 10" by simp
    from digit_mem [OF this] "1.IH" [OF False] eq show ?thesis by simp
  qed
qed

lemma length_str_nat_1: "n < 10 \<Longrightarrow> length (str_nat n) = 1"
  by (subst str_nat.simps) simp

lemma length_str_nat_step: "10 \<le> n \<Longrightarrow> length (str_nat n) = Suc (length (str_nat (n div 10)))"
  by (subst str_nat.simps) simp

lemma length_str_nat_2: "10 \<le> n \<Longrightarrow> n < 100 \<Longrightarrow> length (str_nat n) = 2"
  by (simp add: length_str_nat_step length_str_nat_1)

lemma length_str_nat_3: "100 \<le> n \<Longrightarrow> n < 1000 \<Longrightarrow> length (str_nat n) = 3"
proof -
  assume "100 \<le> n" and "n < 1000"
  then have "10 \<le> n div 10" and "n div 10 < 100" and "10 \<le> n" by simp_all
  then show ?thesis
    using length_str_nat_step [of n] length_str_nat_2 [of "n div 10"] by simp
qed

lemma length_str_nat_4: "1000 \<le> n \<Longrightarrow> n < 10000 \<Longrightarrow> length (str_nat n) = 4"
proof -
  assume "1000 \<le> n" and "n < 10000"
  then have "100 \<le> n div 10" and "n div 10 < 1000" and "10 \<le> n" by simp_all
  then show ?thesis
    using length_str_nat_step [of n] length_str_nat_3 [of "n div 10"] by simp
qed

lemma length_pad2: "n < 100 \<Longrightarrow> length (pad2 n) = 2"
  by (cases "n < 10") (simp_all add: pad2_def length_str_nat_1 length_str_nat_2)

lemma pad2_digits: "set (pad2 n) \<subseteq> set ''0123456789''"
  using str_nat_digits [of n] by (auto simp: pad2_def)

lemma strftime_shape:
  assumes "valid_datetime dt"
  shows "length (str_nat (year dt)) = 4 \<and> length (pad2 (month dt)) = 2 \<and>
         length (pad2 (day dt)) = 2 \<and> length (pad2 (hour dt)) = 2 \<and>
         length (pad2 (minute dt)) = 2 \<and> length (pad2 (second dt)) = 2"
  using assms by (simp add: valid_datetime_def length_str_nat_4 length_pad2)

text \<open>
  Claim C8. For a successful generation outside mock mode with an output directory
  configured, the path returned, which is the path the image was saved under, is the
  output directory joined with \<open>{timestamp}_{width}x{height}.png\<close> for the request's
  width and height; the timestamp is year, month, day, an underscore, hour, minute,
  second, all digits, and for a clock reading in range the fields have 4, 2, 2, 2, 2, 2
  characters, 15 with the underscore.
\<close>

theorem saved_file_name:
  assumes "\<not> mock_mode s" and "output_dir s \<noteq> []" and "fst (generate w s req) = Ok r"
  shows "file_path r =
           path_join (output_dir s)
             (strftime (now w) @ ''_'' @ str_int (width req) @ ''x'' @ str_int (height req) @ ''.png'') \<and>
         (\<exists>img. SaveFile (file_path r) img \<in> set (fst (snd (generate w s req)))) \<and>
         strftime (now w) =
           str_nat (year (now w)) @ pad2 (month (now w)) @ pad2 (day (now w)) @ ''_'' @
           pad2 (hour (now w)) @ pad2 (minute (now w)) @ pad2 (second (now w)) \<and>
         set (str_nat (year (now w)) @ pad2 (month (now w)) @ pad2 (day (now w)) @
              pad2 (hour (now w)) @ pad2 (minute (now w)) @ pad2 (second (now w)))
           \<subseteq> set ''0123456789'' \<and>
         (valid_datetime (now w) \<longrightarrow>
            length (str_nat (year (now w))) = 4 \<and> length (pad2 (month (now w))) = 2 \<and>
            length (pad2 (day (now w))) = 2 \<and> length (pad2 (hour (now w))) = 2 \<and>
            length (pad2 (minute (now w))) = 2 \<and> length (pad2 (second (now w))) = 2 \<and>
            length (strftime (now w)) = 15)"
proof -
  from generate_ok_nonmock [OF assms(1,3)] obtain p fx where
    t: "generate_try w s p req = (Inr r, fx)" and g: "generate w s req = (Ok r, fx, s)" by blast
  from generate_try_ok [OF t] assms(2) obtain img where
    fp: "file_path r = path_join (output_dir s) (file_name (now w) req)"
    and fx: "fx = [SaveFile (file_path r) img, Log (ImageSaved (file_path r)),
              Log (Generated (width req) (height req) (steps req))]"
    by auto
  from fp have 1: "file_path r =
           path_join (output_dir s)
             (strftime (now w) @ ''_'' @ str_int (width req) @ ''x'' @ str_int (height req) @ ''.png'')"
    by (simp add: file_name_def)
  from g fx have 2: "\<exists>img. SaveFile (file_path r) img \<in> set (fst (snd (generate w s req)))"
    by auto
  have 3: "strftime (now w) =
           str_nat (year (now w)) @ pad2 (month (now w)) @ pad2 (day (now w)) @ ''_'' @
           pad2 (hour (now w)) @ pad2 (minute (now w)) @ pad2 (second (now w))"
    by (simp add: strftime_def)
  have 4: "set (str_nat (year (now w)) @ pad2 (month (now w)) @ pad2 (day (now w)) @
              pad2 (hour (now w)) @ pad2 (minute (now w)) @ pad2 (second (now w)))
           \<subseteq> set ''0123456789''"
    using str_nat_digits [of "year (now w)"] pad2_digits [of "month (now w)"]
      pad2_digits [of "day (now w)"] pad2_digits [of "hour (now w)"]
      pad2_digits [of "minute (now w)"] pad2_digits [of "second (now w)"]
    by (simp only: set_append Un_subset_iff)
  have 5: "valid_datetime (now w) \<longrightarrow>
            length (str_nat (year (now w))) = 4 \<and> length (pad2 (month (now w))) = 2 \<and>
            length (pad2 (day (now w))) = 2 \<and> length (pad2 (hour (now w))) = 2 \<and>
            length (pad2 (minute (now w))) = 2 \<and> length (pad2 (second (now w))) = 2 \<and>
            length (strftime (now w)) = 15"
  proof
    assume "valid_datetime (now w)"
    from strftime_shape [OF this] show "length (str_nat (year (now w))) = 4 \<and> length (pad2 (month (now w))) = 2 \<and>
            length (pad2 (day (now w))) = 2 \<and> length (pad2 (hour (now w))) = 2 \<and>
            length (pad2 (minute (now w))) = 2 \<and> length (pad2 (second (now w))) = 2 \<and>
            length (strftime (now w)) = 15"
      by (simp add: strftime_def)
  qed
  from 1 2 3 4 5 show ?thesis by (intro conjI)
qed

theorem saved_file_name_witness:
  "\<not> mock_mode loaded_state \<and> output_dir loaded_state = ''output/zimage'' \<and>
   valid_datetime (now example_env) \<and>
   generate example_env loaded_state example_req =
     (Ok \<lparr>image_b64 = ''iVBORw=='', mime_type = ''image/png'',
          file_path = ''output/zimage/20260307_090542_640x480.png''\<rparr>,
      [SaveFile ''output/zimage/20260307_090542_640x480.png'' (PIL_Image 640 480 (Pixels [])),
       Log (ImageSaved ''output/zimage/20260307_090542_640x480.png''),
       Log (Generated 640 480 28)],
      loaded_state) \<and>
   strftime (now example_env) = ''20260307_090542'' \<and>
   length (strftime (now example_env)) = 15 \<and>
   ''output/zimage/20260307_090542_640x480.png'' =
     path_join (output_dir loaded_state)
       (strftime (now example_env) @ ''_'' @ str_int (width example_req) @ ''x'' @
        str_int (height example_req) @ ''.png'')"
proof -
  have a: "\<not> mock_mode loaded_state" and b: "output_dir loaded_state = ''output/zimage''"
    by (simp_all add: loaded_state_def)
  have v: "valid_datetime (now example_env)"
    by (simp add: valid_datetime_def example_env_def)
  have g: "generate example_env loaded_state example_req =
     (Ok \<lparr>image_b64 = ''iVBORw=='', mime_type = ''image/png'',
          file_path = ''output/zimage/20260307_090542_640x480.png''\<rparr>,
      [SaveFile ''output/zimage/20260307_090542_640x480.png'' (PIL_Image 640 480 (Pixels [])),
       Log (ImageSaved ''output/zimage/20260307_090542_640x480.png''),
       Log (Generated 640 480 28)],
      loaded_state)"
    by (simp add: run_defs example_defs)
  have ts: "strftime (now example_env) = ''20260307_090542''"
    by (simp add: strftime_def pad2_def str_nat.simps example_env_def)
  have nz: "output_dir loaded_state \<noteq> []" using b by simp
  have ok: "fst (generate example_env loaded_state example_req) =
     Ok \<lparr>image_b64 = ''iVBORw=='', mime_type = ''image/png'',
          file_path = ''output/zimage/20260307_090542_640x480.png''\<rparr>"
    using g by simp
  from saved_file_name [OF a nz ok] v
  have "''output/zimage/20260307_090542_640x480.png'' =
     path_join (output_dir loaded_state)
       (strftime (now example_env) @ ''_'' @ str_int (width example_req) @ ''x'' @
        str_int (height example_req) @ ''.png'')"
    and "length (strftime (now example_env)) = 15"
    by simp_all
  with a b v g ts show ?thesis by simp
qed

subsection \<open>The globals during a run\<close>

lemma health_state: "snd (health s) = s"
  by (simp add: health_def)

lemma generate_state: "snd (snd (generate w s req)) = s"
  by (simp add: generate_def split: option.splits sum.splits prod.splits)

lemma handle_state: "handle w s r = s"
  by (cases r) (simp_all add: handle_def health_state generate_state)

lemma serve_replicate: "serve s rs = replicate (length rs) s"
proof (induction rs)
  case Nil
  show ?case by simp
next
  case (Cons x rs)
  obtain w r where "x = (w, r)" by (cases x)
  with Cons show ?case by (simp add: handle_state)
qed

lemma loads_replicate_Some: "loads (Some p # replicate n (Some q)) = 0"
  by (induction n arbitrary: p) simp_all

lemma loads_replicate_None: "loads (None # replicate n None) = 0"
  by (induction n) simp_all

lemma unloads_replicate_Some: "unloads (Some p # replicate n (Some q)) = 0"
  by (induction n arbitrary: p) simp_all

lemma unloads_replicate_None: "unloads (None # replicate n None) = 0"
  by (induction n) simp_all

lemma never_loaded:
  "xs = None # None # replicate n None \<Longrightarrow> loads xs \<le> 1 \<and> unloads xs = 0"
  by (simp add: loads_replicate_None unloads_replicate_None)

lemma loaded_once:
  "xs = None # None # Some p # replicate n (Some p') \<Longrightarrow> loads xs \<le> 1 \<and> unloads xs = 0"
  by (simp add: loads_replicate_Some unloads_replicate_Some)

lemma loaded_and_moved:
  "xs = None # None # Some p # Some p' # replicate n (Some p'') \<Longrightarrow>
   loads xs \<le> 1 \<and> unloads xs = 0"
  by (simp add: loads_replicate_Some unloads_replicate_Some)

lemma load_model_pipes:
  "load_model w m s = (r, tr) \<Longrightarrow>
   (r \<noteq> Inr () \<and> tr = []) \<or>
   (\<exists>p. tr = [s\<lparr>pipe := Some p\<rparr>]) \<or>
   (\<exists>p p'. r = Inr () \<and> tr = [s\<lparr>pipe := Some p\<rparr>, s\<lparr>pipe := Some p'\<rparr>])"
  by (auto simp: load_model_def Let_def split: sum.splits option.splits if_splits)

lemma init_mock_pipes:
  "init_mock w s = (r, tr) \<Longrightarrow> tr \<noteq> [] \<and> (\<forall>x \<in> set tr. pipe x = pipe s)"
  by (auto simp: init_mock_def Let_def split: sum.splits)

lemma run_self_test_trace:
  "run_self_test w m s = (out, tr) \<Longrightarrow>
   (\<exists>r. load_model w m s = (r, tr)) \<and> (\<forall>x. out \<noteq> Serving x)"
  by (auto simp: run_self_test_def split: prod.splits sum.splits option.splits list.splits
      pyobj.splits if_splits)

lemma process_states_cases:
  "loads (map pipe (process_states w a rs)) \<le> 1 \<and>
   unloads (map pipe (process_states w a rs)) = 0"
proof -
  let ?s1 = "initial_state\<lparr>output_dir := output_dir_arg a\<rparr>"
  have p1: "pipe ?s1 = None" by (simp add: initial_state_def)
  show ?thesis
  proof (cases "makedirs w (output_dir_arg a)")
    case (Some e)
    then have "map pipe (process_states w a rs) = None # None # replicate 0 None"
      by (simp add: process_states_def main_def initial_state_def)
    then show ?thesis by (rule never_loaded)
  next
    case None
    show ?thesis
    proof (cases "self_test a")
      case True
      obtain out tr where rt: "run_self_test w (model a) ?s1 = (out, tr)"
        by (cases "run_self_test w (model a) ?s1")
      from run_self_test_trace [OF rt] obtain r where
        lm: "load_model w (model a) ?s1 = (r, tr)" and ns: "\<forall>x. out \<noteq> Serving x" by blast
      from ns have ps: "process_states w a rs = initial_state # ?s1 # tr"
        using None True rt
        by (cases out) (simp_all add: process_states_def main_def)
      from load_model_pipes [OF lm] show ?thesis
      proof (elim disjE exE conjE)
        assume "tr = []"
        with ps have "map pipe (process_states w a rs) = None # None # replicate 0 None"
          by (simp add: initial_state_def)
        then show ?thesis by (rule never_loaded)
      next
        fix p assume "tr = [?s1\<lparr>pipe := Some p\<rparr>]"
        with ps have "map pipe (process_states w a rs) = None # None # Some p # replicate 0 (Some p)"
          by (simp add: initial_state_def)
        then show ?thesis by (rule loaded_once)
      next
        fix p p' assume "tr = [?s1\<lparr>pipe := Some p\<rparr>, ?s1\<lparr>pipe := Some p'\<rparr>]"
        with ps have "map pipe (process_states w a rs) =
            None # None # Some p # Some p' # replicate 0 (Some p')"
          by (simp add: initial_state_def)
        then show ?thesis by (rule loaded_and_moved)
      qed
    next
      case False
      show ?thesis
      proof (cases "mock_flag a")
        case True
        let ?s2 = "?s1\<lparr>mock_delay := mock_delay_arg a\<rparr>"
        obtain r tr where im: "init_mock w ?s2 = (r, tr)" by (cases "init_mock w ?s2")
        from init_mock_pipes [OF im] have ne: "tr \<noteq> []" and al: "\<forall>x \<in> set tr. pipe x = None"
          by (simp_all add: initial_state_def)
        from al have mp: "map pipe tr = replicate (length tr) None"
          by (simp add: map_replicate_const [symmetric] cong: map_cong)
        from ne al have pl: "pipe (last tr) = None" by simp
        have "map pipe (process_states w a rs) =
            None # None # replicate (Suc (length tr) + (case r of Inl e \<Rightarrow> 0 | Inr u \<Rightarrow> length rs)) None"
          using None False True im mp pl ne
          by (cases r)
            (simp_all add: process_states_def main_def Let_def initial_state_def serve_replicate
              replicate_add [symmetric])
        then show ?thesis by (rule never_loaded)
      next
        case nm: False
        obtain r tr where lm: "load_model w (model a) ?s1 = (r, tr)"
          by (cases "load_model w (model a) ?s1")
        have ps: "process_states w a rs =
            initial_state # ?s1 # tr @
              (case r of Inl e \<Rightarrow> [] | Inr u \<Rightarrow> replicate (length rs) (last (?s1 # tr)))"
          using None False nm lm
          by (cases r) (simp_all add: process_states_def main_def Let_def serve_replicate)
        from load_model_pipes [OF lm] show ?thesis
        proof (elim disjE exE conjE)
          assume "r \<noteq> Inr ()" and "tr = []"
          with ps have "map pipe (process_states w a rs) = None # None # replicate 0 None"
            by (cases r) (simp_all add: initial_state_def)
          then show ?thesis by (rule never_loaded)
        next
          fix p assume "tr = [?s1\<lparr>pipe := Some p\<rparr>]"
          with ps have "map pipe (process_states w a rs) =
              None # None # Some p # replicate (case r of Inl e \<Rightarrow> 0 | Inr u \<Rightarrow> length rs) (Some p)"
            by (cases r) (simp_all add: initial_state_def)
          then show ?thesis by (rule loaded_once)
        next
          fix p p' assume "r = Inr ()" and "tr = [?s1\<lparr>pipe := Some p\<rparr>, ?s1\<lparr>pipe := Some p'\<rparr>]"
          with ps have "map pipe (process_states w a rs) =
              None # None # Some p # Some p' # replicate (length rs) (Some p')"
            by (simp add: initial_state_def)
          then show ?thesis by (rule loaded_and_moved)
        qed
      qed
    qed
  qed
qed

text \<open>
  Claim C9. Both handlers return the globals as they found them, so after any sequence
  of requests every one of the five globals has the value startup left; over the whole
  life of a process (initial values, startup, requests) the pipeline handle goes from
  absent to present at most once and never back.
\<close>

theorem handlers_keep_globals:
  "snd (health s) = s \<and> snd (snd (generate w s req)) = s \<and>
   serve s rs = replicate (length rs) s \<and>
   loads (map pipe (process_states w0 a rs)) \<le> 1 \<and>
   unloads (map pipe (process_states w0 a rs)) = 0"
proof -
  from process_states_cases [of w0 a rs]
  show ?thesis
    by (simp add: health_state generate_state serve_replicate)
qed

theorem handlers_keep_globals_witness:
  "snd (health loaded_state) = loaded_state \<and>
   snd (snd (generate example_env loaded_state example_req)) = loaded_state \<and>
   serve loaded_state [(example_env, Health), (failing_env, Generate example_req)] =
     [loaded_state, loaded_state] \<and>
   map pipe (process_states example_env normal_args
       [(example_env, Health), (failing_env, Generate example_req)]) =
     [None, None, Some (Handle 0), Some (Handle 0), Some (Handle 0)] \<and>
   loads (map pipe (process_states example_env normal_args
       [(example_env, Health), (failing_env, Generate example_req)])) \<le> 1 \<and>
   unloads (map pipe (process_states example_env normal_args
       [(example_env, Health), (failing_env, Generate example_req)])) = 0"
proof -
  have m: "main example_env normal_args initial_state =
      (Serving loaded_state, [initial_state\<lparr>output_dir := ''output/zimage''\<rparr>, loaded_state])"
    by (simp add: main_def load_model_def detect_device_def example_defs)
  have p: "map pipe (process_states example_env normal_args
       [(example_env, Health), (failing_env, Generate example_req)]) =
     [None, None, Some (Handle 0), Some (Handle 0), Some (Handle 0)]"
    by (simp add: process_states_def m handle_state) (simp add: example_defs)
  from handlers_keep_globals [where s = loaded_state and w = example_env and req = example_req
      and rs = "[(example_env, Health), (failing_env, Generate example_req)]"
      and ?w0.0 = example_env and a = normal_args] p
  show ?thesis by (simp add: handle_state)
qed

subsection \<open>Mock mode writes no file\<close>

text \<open>
  Started with \<open>--mock --mock-delay inf\<close>, the handler returns no response at all: the
  OverflowError of \<open>time.sleep(inf)\<close> leaves it, and the framework's answer has no
  \<open>file_path\<close> field.
\<close>

theorem mock_no_response_counterexample:
  "fst (main example_env endless_mock_args initial_state) = Serving endless_mock_state \<and>
   mock_mode endless_mock_state \<and>
   generate example_env endless_mock_state example_req =
     (Unhandled (Exception ''timestamp too large to convert to C PyTime_t''), [],
      endless_mock_state)"
  by (simp add: main_def init_mock_def generate_def endless_mock_args_def
      endless_mock_state_def example_defs)

text \<open>
  Claim C10, amended. In mock mode every response \<open>POST /generate\<close> returns has an empty
  \<open>file_path\<close>, and it returns one whenever the mock delay is not positive or
  \<open>time.sleep\<close> returns; no file is saved in mock mode, whatever the output directory and
  whether or not the sleep raises; a save happens only outside mock mode, with a
  pipeline loaded and an output directory configured.
\<close>

theorem mock_saves_nothing:
  "(mock_mode s \<longrightarrow>
      (\<forall>r. fst (generate w s req) = Ok r \<longrightarrow> file_path r = []) \<and>
      (\<forall>path img. SaveFile path img \<notin> set (fst (snd (generate w s req))))) \<and>
   (mock_mode s \<and> (\<not> positive (mock_delay s) \<or> sleep w (mock_delay s) = None) \<longrightarrow>
      (\<exists>r. fst (generate w s req) = Ok r \<and> file_path r = [])) \<and>
   (SaveFile path' img' \<in> set (fst (snd (generate w s req))) \<longrightarrow>
      \<not> mock_mode s \<and> pipe s \<noteq> None \<and> output_dir s \<noteq> [])"
proof (intro conjI impI allI)
  fix r assume "mock_mode s" and "fst (generate w s req) = Ok r"
  then show "file_path r = []"
    by (auto simp: generate_def GenerateResponse_new_def split: if_splits option.splits)
next
  fix path img assume "mock_mode s"
  then show "SaveFile path img \<notin> set (fst (snd (generate w s req)))"
    by (auto simp: generate_def split: option.splits)
next
  assume "mock_mode s \<and> (\<not> positive (mock_delay s) \<or> sleep w (mock_delay s) = None)"
  then show "\<exists>r. fst (generate w s req) = Ok r \<and> file_path r = []"
    by (auto simp: generate_def GenerateResponse_new_def)
next
  assume sv: "SaveFile path' img' \<in> set (fst (snd (generate w s req)))"
  then show "\<not> mock_mode s"
    by (auto simp: generate_def split: option.splits if_splits)
  with sv show "pipe s \<noteq> None"
    by (auto simp: generate_def split: option.splits)
  from sv \<open>\<not> mock_mode s\<close> show "output_dir s \<noteq> []"
    by (auto simp: generate_def generate_try_def Let_def
        split: sum.splits list.splits option.splits prod.splits if_splits)
qed

theorem mock_saves_nothing_witness:
  "mock_mode mock_state \<and> output_dir mock_state = ''output/zimage'' \<and>
   positive (mock_delay mock_state) \<and> sleep example_env (mock_delay mock_state) = None \<and>
   generate example_env mock_state example_req =
     (Ok \<lparr>image_b64 = ''iVBORw=='', mime_type = ''image/png'', file_path = []\<rparr>,
      [Sleep (Float (1 / 2))], mock_state) \<and>
   file_path \<lparr>image_b64 = ''iVBORw=='', mime_type = ''image/png'', file_path = []\<rparr> = [] \<and>
   SaveFile ''output/zimage/20260307_090542_640x480.png'' (PIL_Image 640 480 (Pixels []))
     \<in> set (fst (snd (generate example_env loaded_state example_req))) \<and>
   \<not> mock_mode loaded_state \<and> pipe loaded_state \<noteq> None \<and> output_dir loaded_state \<noteq> []"
proof -
  have m: "mock_mode mock_state" "output_dir mock_state = ''output/zimage''"
    "positive (mock_delay mock_state)" "sleep example_env (mock_delay mock_state) = None"
    by (simp_all add: example_defs)
  have g: "generate example_env mock_state example_req =
     (Ok \<lparr>image_b64 = ''iVBORw=='', mime_type = ''image/png'', file_path = []\<rparr>,
      [Sleep (Float (1 / 2))], mock_state)"
    by (simp add: generate_def example_defs)
  have sv: "SaveFile ''output/zimage/20260307_090542_640x480.png'' (PIL_Image 640 480 (Pixels []))
     \<in> set (fst (snd (generate example_env loaded_state example_req)))"
    by (simp add: run_defs example_defs)
  from mock_saves_nothing [where s = mock_state and w = example_env and req = example_req] m g
  have 1: "file_path \<lparr>image_b64 = ''iVBORw=='', mime_type = ''image/png'', file_path = []\<rparr> = []"
    by simp
  from mock_saves_nothing [where s = loaded_state and w = example_env and req = example_req
      and path' = "''output/zimage/20260307_090542_640x480.png''"
      and img' = "PIL_Image 640 480 (Pixels [])"] sv
  have 2: "\<not> mock_mode loaded_state \<and> pipe loaded_state \<noteq> None \<and> output_dir loaded_state \<noteq> []"
    by blast
  from m g sv 1 2 show ?thesis by simp
qed

end
